theory Spec2Isabelle
  imports Main
begin

section \<open>Values of the tracer\<close>

text \<open>
  The embedding follows \<^verbatim>\<open>torch/_dynamo/variables/torch.py\<close>: the method
  \<^verbatim>\<open>TorchVariable.call_function\<close> (the operator classifier) and the handling of
  \<^verbatim>\<open>cond\<close> in \<^verbatim>\<open>TorchPyOperator.call_function\<close> (the branch speculator).
  A Python exception is a value of type \<open>exc\<close>; a call returns \<open>exc + 'a\<close> together
  with the state of the trace, which keeps the mutations made before a raise.
\<close>

type_synonym guard = nat
type_synonym options = "guard set"

datatype exc =
    Unsupported string
  | AssertionError string
  | TypeError string
  | IndexError
  | KeyError string
  | AttributeError string
  | NotImplementedError
  | Raised nat

datatype dtype =
    Float16 | BFloat16 | Float32 | Float64
  | Complex64 | Complex128
  | UInt8 | Int8 | Int16 | Int32 | Int64 | Bool

fun dtype_is_floating_point :: "dtype \<Rightarrow> bool" where
  "dtype_is_floating_point Float16 = True"
| "dtype_is_floating_point BFloat16 = True"
| "dtype_is_floating_point Float32 = True"
| "dtype_is_floating_point Float64 = True"
| "dtype_is_floating_point _ = False"

fun dtype_is_complex :: "dtype \<Rightarrow> bool" where
  "dtype_is_complex Complex64 = True"
| "dtype_is_complex Complex128 = True"
| "dtype_is_complex _ = False"

datatype device = CPU | CUDA nat

text \<open>
  The callables a \<^verbatim>\<open>TorchVariable\<close> can point to: one constructor for each object
  of the library that the source names, and \<open>Other_fn name module\<close> for any other
  function, with its \<^verbatim>\<open>__name__\<close> and \<^verbatim>\<open>__module__\<close>.
\<close>

datatype torch_fn =
    Torch_assert | Torch_get_device_index | Torch_cuda_is_available | Torch_device
  | Torch_distributed_is_available | Torch_distributed_is_initialized
  | Torch_finfo | Torch_get_default_dtype | Torch_iinfo | Torch_is_floating_point
  | Torch_Reduction_get_enum
  | NN_Softmax | NN_CrossEntropyLoss | NN_Module_type string
  | Torch_is_tensor | Torch_is_tensor_like | Torch_is_complex | Torch_numel
  | Onnx_shape_as_tensor | Torch_shape_as_tensor
  | Utils_single | Utils_pair | Utils_triple | Utils_quadruple | Utils_ntuple
  | Torch_no_grad | Torch_enable_grad | Torch_set_grad_enabled | Torch_is_grad_enabled
  | Torch_nonzero | Torch_unique | Torch_unique_consecutive | Torch_where
  | Torch_arange | Torch_repeat_interleave
  | Torch_autocast | Profiler_profile | Profiler_record_function
  | Autograd_profiler_profile | Autograd_profiler_record_function
  | Autograd_profiler_enabled
  | Jit_annotate | Cudnn_is_acceptable
  | Generator_method string
  | Torch_set_rng_state
  | Torch_addcdiv | Torch_div | Torch_mul | Torch_add
  | Math_sqrt | Sym_sqrt
  | Torch_tensortype dtype
  | F_softmax | F_cross_entropy
  | Other_fn string "string option"

text \<open>\<^verbatim>\<open>self.value.__name__\<close>.\<close>

fun fn_name :: "torch_fn \<Rightarrow> string" where
  "fn_name Torch_assert = ''_assert''"
| "fn_name Torch_get_device_index = ''_get_device_index''"
| "fn_name Torch_cuda_is_available = ''is_available''"
| "fn_name Torch_device = ''device''"
| "fn_name Torch_distributed_is_available = ''is_available''"
| "fn_name Torch_distributed_is_initialized = ''is_initialized''"
| "fn_name Torch_finfo = ''finfo''"
| "fn_name Torch_get_default_dtype = ''get_default_dtype''"
| "fn_name Torch_iinfo = ''iinfo''"
| "fn_name Torch_is_floating_point = ''is_floating_point''"
| "fn_name Torch_Reduction_get_enum = ''get_enum''"
| "fn_name NN_Softmax = ''Softmax''"
| "fn_name NN_CrossEntropyLoss = ''CrossEntropyLoss''"
| "fn_name (NN_Module_type n) = n"
| "fn_name Torch_is_tensor = ''is_tensor''"
| "fn_name Torch_is_tensor_like = ''is_tensor_like''"
| "fn_name Torch_is_complex = ''is_complex''"
| "fn_name Torch_numel = ''numel''"
| "fn_name Onnx_shape_as_tensor = ''shape_as_tensor''"
| "fn_name Torch_shape_as_tensor = ''_shape_as_tensor''"
| "fn_name Utils_single = ''_single''"
| "fn_name Utils_pair = ''_pair''"
| "fn_name Utils_triple = ''_triple''"
| "fn_name Utils_quadruple = ''_quadruple''"
| "fn_name Utils_ntuple = ''_ntuple''"
| "fn_name Torch_no_grad = ''no_grad''"
| "fn_name Torch_enable_grad = ''enable_grad''"
| "fn_name Torch_set_grad_enabled = ''set_grad_enabled''"
| "fn_name Torch_is_grad_enabled = ''is_grad_enabled''"
| "fn_name Torch_nonzero = ''nonzero''"
| "fn_name Torch_unique = ''unique''"
| "fn_name Torch_unique_consecutive = ''unique_consecutive''"
| "fn_name Torch_where = ''where''"
| "fn_name Torch_arange = ''arange''"
| "fn_name Torch_repeat_interleave = ''repeat_interleave''"
| "fn_name Torch_autocast = ''autocast''"
| "fn_name Profiler_profile = ''profile''"
| "fn_name Profiler_record_function = ''record_function''"
| "fn_name Autograd_profiler_profile = ''profile''"
| "fn_name Autograd_profiler_record_function = ''record_function''"
| "fn_name Autograd_profiler_enabled = ''_profiler_enabled''"
| "fn_name Jit_annotate = ''annotate''"
| "fn_name Cudnn_is_acceptable = ''is_acceptable''"
| "fn_name (Generator_method n) = n"
| "fn_name Torch_set_rng_state = ''set_rng_state''"
| "fn_name Torch_addcdiv = ''addcdiv''"
| "fn_name Torch_div = ''div''"
| "fn_name Torch_mul = ''mul''"
| "fn_name Torch_add = ''add''"
| "fn_name Math_sqrt = ''sqrt''"
| "fn_name Sym_sqrt = ''sym_sqrt''"
| "fn_name (Torch_tensortype d) = ''Tensor''"
| "fn_name F_softmax = ''softmax''"
| "fn_name F_cross_entropy = ''cross_entropy''"
| "fn_name (Other_fn n m) = n"

text \<open>
  \<^verbatim>\<open>getattr(self.value, "__module__", None)\<close>. The source compares it with
  \<^verbatim>\<open>"math"\<close> and \<^verbatim>\<open>"torch"\<close> only; the functions of the \<^verbatim>\<open>torch\<close> namespace
  report \<^verbatim>\<open>"torch"\<close>, a bound method of a generator has none.
\<close>

fun fn_module :: "torch_fn \<Rightarrow> string option" where
  "fn_module Math_sqrt = Some ''math''"
| "fn_module (Other_fn n m) = m"
| "fn_module (Generator_method n) = None"
| "fn_module Torch_get_device_index = Some ''torch._utils''"
| "fn_module Torch_cuda_is_available = Some ''torch.cuda''"
| "fn_module Torch_distributed_is_available = Some ''torch.distributed''"
| "fn_module Torch_distributed_is_initialized = Some ''torch.distributed.distributed_c10d''"
| "fn_module Torch_Reduction_get_enum = Some ''torch.nn._reduction''"
| "fn_module NN_Softmax = Some ''torch.nn.modules.activation''"
| "fn_module NN_CrossEntropyLoss = Some ''torch.nn.modules.loss''"
| "fn_module (NN_Module_type n) = Some ''torch.nn.modules''"
| "fn_module Torch_is_tensor_like = Some ''torch.overrides''"
| "fn_module Onnx_shape_as_tensor = Some ''torch.onnx.operators''"
| "fn_module Utils_single = Some ''torch.nn.modules.utils''"
| "fn_module Utils_pair = Some ''torch.nn.modules.utils''"
| "fn_module Utils_triple = Some ''torch.nn.modules.utils''"
| "fn_module Utils_quadruple = Some ''torch.nn.modules.utils''"
| "fn_module Utils_ntuple = Some ''torch.nn.modules.utils''"
| "fn_module Torch_no_grad = Some ''torch.autograd.grad_mode''"
| "fn_module Torch_enable_grad = Some ''torch.autograd.grad_mode''"
| "fn_module Torch_set_grad_enabled = Some ''torch.autograd.grad_mode''"
| "fn_module Torch_autocast = Some ''torch.amp.autocast_mode''"
| "fn_module Profiler_profile = Some ''torch.profiler.profiler''"
| "fn_module Profiler_record_function = Some ''torch.autograd.profiler''"
| "fn_module Autograd_profiler_profile = Some ''torch.autograd.profiler''"
| "fn_module Autograd_profiler_record_function = Some ''torch.autograd.profiler''"
| "fn_module Autograd_profiler_enabled = Some ''torch.autograd''"
| "fn_module Jit_annotate = Some ''torch.jit''"
| "fn_module Cudnn_is_acceptable = Some ''torch.backends.cudnn''"
| "fn_module Torch_set_rng_state = Some ''torch.random''"
| "fn_module Sym_sqrt = Some ''torch.fx.experimental.symbolic_shapes''"
| "fn_module F_softmax = Some ''torch.nn.functional''"
| "fn_module F_cross_entropy = Some ''torch.nn.functional''"
| "fn_module _ = Some ''torch''"

text \<open>\<^verbatim>\<open>istype(self.value, type) and issubclass(self.value, torch.nn.Module)\<close>.\<close>

fun is_nn_module_type :: "torch_fn \<Rightarrow> bool" where
  "is_nn_module_type NN_Softmax = True"
| "is_nn_module_type NN_CrossEntropyLoss = True"
| "is_nn_module_type (NN_Module_type n) = True"
| "is_nn_module_type _ = False"

text \<open>
  \<^verbatim>\<open>hasattr(self.value, "__self__") and isinstance(self.value.__self__, torch._C.Generator)\<close>.
\<close>

fun self_is_generator :: "torch_fn \<Rightarrow> bool" where
  "self_is_generator (Generator_method n) = True"
| "self_is_generator _ = False"

text \<open>
  Concrete Python values. \<open>PyFloat m e\<close> is the float \<open>m * 2 ^ e\<close>;
  \<open>PyNumpy v\<close> is a numpy scalar whose \<^verbatim>\<open>item()\<close> is \<open>v\<close>.
\<close>

datatype pyval =
    PyNone
  | PyBool bool
  | PyInt int
  | PyFloat int int
  | PyStr string
  | PyTuple "pyval list"
  | PyList "pyval list"
  | PyNumpy pyval
  | PyFn torch_fn
  | PyObject nat

text \<open>What a \<^verbatim>\<open>TensorVariable\<close> knows about its tensor; the proxy is a node name.\<close>

record tensor =
  proxy :: nat
  dtype :: "dtype option"
  tsize :: "nat list option"
  device :: "device option"
  example_value :: "nat option"

datatype lambda_fn = Handle_ntuple int | Fake_softmax | Fake_cross_entropy_loss

text \<open>
  The \<^verbatim>\<open>VariableTracker\<close> classes the source tests for. Every value carries its
  guards (the \<^verbatim>\<open>**options\<close> of the constructors). A \<open>LambdaVariable\<close> holds
  the local function and the variables its closure captured.
\<close>

datatype tv =
    ConstantVariable pyval options
  | TensorVariable tensor options
  | UnspecializedPythonVariable tensor pyval options
  | DynamicShapeVariable nat options
  | TupleVariable "tv list" options
  | ListVariable "tv list" options
  | LambdaVariable lambda_fn "tv list" options
  | UserDefinedObjectVariable nat bool options
  | TensorWithTFOverrideVariable tv nat options
  | TorchVariable torch_fn options
  | GradModeVariable bool options
  | AutocastModeVariable nat options
  | NullContextVariable options
  | NewCellVariable options
  | UserFunctionVariable nat options
  | NestedUserFunctionVariable nat options
  | OtherVariable nat options

fun guards :: "tv \<Rightarrow> options" where
  "guards (ConstantVariable v g) = g"
| "guards (TensorVariable t g) = g"
| "guards (UnspecializedPythonVariable t v g) = g"
| "guards (DynamicShapeVariable p g) = g"
| "guards (TupleVariable xs g) = g"
| "guards (ListVariable xs g) = g"
| "guards (LambdaVariable f c g) = g"
| "guards (UserDefinedObjectVariable i h g) = g"
| "guards (TensorWithTFOverrideVariable t m g) = g"
| "guards (TorchVariable f g) = g"
| "guards (GradModeVariable b g) = g"
| "guards (AutocastModeVariable a g) = g"
| "guards (NullContextVariable g) = g"
| "guards (NewCellVariable g) = g"
| "guards (UserFunctionVariable f g) = g"
| "guards (NestedUserFunctionVariable f g) = g"
| "guards (OtherVariable i g) = g"

text \<open>
  Modelled from the spec: \<^verbatim>\<open>VariableTracker.propagate\<close> (base.py is not among the
  sources) combines the guards of the given values into the options of a new one.
\<close>

definition propagate :: "tv list \<Rightarrow> options" where
  "propagate vars = \<Union> (set (map guards vars))"

text \<open>\<^verbatim>\<open>isinstance(x, TensorVariable)\<close>: the unspecialized scalar is a subclass.\<close>

fun is_TensorVariable :: "tv \<Rightarrow> bool" where
  "is_TensorVariable (TensorVariable t g) = True"
| "is_TensorVariable (UnspecializedPythonVariable t v g) = True"
| "is_TensorVariable _ = False"

fun the_tensor :: "tv \<Rightarrow> tensor option" where
  "the_tensor (TensorVariable t g) = Some t"
| "the_tensor (UnspecializedPythonVariable t v g) = Some t"
| "the_tensor _ = None"

fun is_TupleVariable :: "tv \<Rightarrow> bool" where
  "is_TupleVariable (TupleVariable xs g) = True"
| "is_TupleVariable _ = False"

fun is_DynamicShapeVariable :: "tv \<Rightarrow> bool" where
  "is_DynamicShapeVariable (DynamicShapeVariable p g) = True"
| "is_DynamicShapeVariable _ = False"

fun is_ConstantVariable :: "tv \<Rightarrow> bool" where
  "is_ConstantVariable (ConstantVariable v g) = True"
| "is_ConstantVariable _ = False"

fun is_UnspecializedPythonVariable :: "tv \<Rightarrow> bool" where
  "is_UnspecializedPythonVariable (UnspecializedPythonVariable t v g) = True"
| "is_UnspecializedPythonVariable _ = False"

fun is_TensorWithTFOverrideVariable :: "tv \<Rightarrow> bool" where
  "is_TensorWithTFOverrideVariable (TensorWithTFOverrideVariable t m g) = True"
| "is_TensorWithTFOverrideVariable _ = False"

fun is_NewCellVariable :: "tv \<Rightarrow> bool" where
  "is_NewCellVariable (NewCellVariable g) = True"
| "is_NewCellVariable _ = False"

fun is_user_function :: "tv \<Rightarrow> bool" where
  "is_user_function (UserFunctionVariable f g) = True"
| "is_user_function (NestedUserFunctionVariable f g) = True"
| "is_user_function _ = False"

text \<open>
  Modelled from the spec: \<^verbatim>\<open>as_python_constant\<close> of the variable classes (not among
  the sources). A value is constant iff it can report an equivalent concrete value; a
  sequence is constant iff each of its parts is. \<open>None\<close> stands for
  \<^verbatim>\<open>NotImplementedError\<close>.
\<close>

fun as_python_constant :: "tv \<Rightarrow> pyval option" where
  "as_python_constant (ConstantVariable v g) = Some v"
| "as_python_constant (TupleVariable xs g) =
     (if list_all (\<lambda>x. as_python_constant x \<noteq> None) xs
      then Some (PyTuple (map (\<lambda>x. the (as_python_constant x)) xs)) else None)"
| "as_python_constant (ListVariable xs g) =
     (if list_all (\<lambda>x. as_python_constant x \<noteq> None) xs
      then Some (PyList (map (\<lambda>x. the (as_python_constant x)) xs)) else None)"
| "as_python_constant (TorchVariable f g) = Some (PyFn f)"
| "as_python_constant _ = None"

definition is_python_constant :: "tv \<Rightarrow> bool" where
  "is_python_constant x \<longleftrightarrow> as_python_constant x \<noteq> None"


text \<open>
  Modelled from the spec: \<^verbatim>\<open>check_constant_args\<close>, \<^verbatim>\<open>check_unspec_python_args\<close>
  and \<^verbatim>\<open>specialize_args_kwargs\<close> of utils.py (not among the sources). The first
  holds when every argument is constant; the second when every argument is a constant
  or an unspecialized scalar and at least one is unspecialized; the third replaces an
  unspecialized scalar by the constant of its raw value.
\<close>

definition check_constant_args :: "tv list \<Rightarrow> (string \<times> tv) list \<Rightarrow> bool" where
  "check_constant_args args kwargs \<longleftrightarrow> list_all is_python_constant (args @ map snd kwargs)"

definition check_unspec_python_args :: "tv list \<Rightarrow> (string \<times> tv) list \<Rightarrow> bool" where
  "check_unspec_python_args args kwargs \<longleftrightarrow>
     list_all (\<lambda>x. is_UnspecializedPythonVariable x \<or> is_ConstantVariable x)
       (args @ map snd kwargs) \<and>
     list_ex is_UnspecializedPythonVariable (args @ map snd kwargs)"

fun as_specialized :: "tv \<Rightarrow> tv" where
  "as_specialized (UnspecializedPythonVariable t v g) = ConstantVariable v g"
| "as_specialized x = x"

definition specialize_args_kwargs ::
  "tv list \<Rightarrow> (string \<times> tv) list \<Rightarrow> tv list \<times> (string \<times> tv) list" where
  "specialize_args_kwargs args kwargs =
     (map as_specialized args, map (\<lambda>(k, v). (k, as_specialized v)) kwargs)"

section \<open>The graph fragment and the state of the trace\<close>

datatype opcode = Placeholder | Call_function | Call_method | Get_attr | Output

datatype target =
    Fn torch_fn
  | Local_fn string
  | Name string
  | Input nat
  | PyOperator string

datatype parg = PNode nat | PConst pyval | PSeq "parg list"

record node =
  opcode :: opcode
  target :: target
  n_args :: "parg list"
  n_kwargs :: "(string \<times> parg) list"

text \<open>
  Modelled from the spec: \<^verbatim>\<open>as_proxy\<close> of the variable classes (not among the
  sources) gives the reference to the underlying concrete value or proxy node;
  \<^verbatim>\<open>TorchVariable.as_proxy\<close> is in the source. \<open>None\<close> stands for
  \<^verbatim>\<open>NotImplementedError\<close>, which \<^verbatim>\<open>proxy_args_kwargs\<close> turns into Unsupported.
\<close>

fun as_proxy :: "tv \<Rightarrow> parg option" where
  "as_proxy (ConstantVariable v g) = Some (PConst v)"
| "as_proxy (TensorVariable t g) = Some (PNode (proxy t))"
| "as_proxy (UnspecializedPythonVariable t v g) = Some (PNode (proxy t))"
| "as_proxy (DynamicShapeVariable p g) = Some (PNode p)"
| "as_proxy (TupleVariable xs g) =
     (if list_all (\<lambda>x. as_proxy x \<noteq> None) xs
      then Some (PSeq (map (\<lambda>x. the (as_proxy x)) xs)) else None)"
| "as_proxy (ListVariable xs g) =
     (if list_all (\<lambda>x. as_proxy x \<noteq> None) xs
      then Some (PSeq (map (\<lambda>x. the (as_proxy x)) xs)) else None)"
| "as_proxy (TorchVariable f g) = Some (PConst (PyFn f))"
| "as_proxy _ = None"

definition proxy_args_kwargs ::
  "tv list \<Rightarrow> (string \<times> tv) list \<Rightarrow> exc + parg list \<times> (string \<times> parg) list" where
  "proxy_args_kwargs args kwargs =
     (if list_all (\<lambda>x. as_proxy x \<noteq> None) (args @ map snd kwargs)
      then Inr (map (\<lambda>x. the (as_proxy x)) args,
                map (\<lambda>(k, v). (k, the (as_proxy v))) kwargs)
      else Inl (Unsupported ''call_function args''))"

datatype mutable_local =
    AttributeMutationNew nat
  | AttributeMutationExisting nat
  | MutableLocal nat

fun is_AttributeMutationNew :: "mutable_local \<Rightarrow> bool" where
  "is_AttributeMutationNew (AttributeMutationNew i) = True"
| "is_AttributeMutationNew _ = False"

record side_effects =
  id_to_variable :: "nat \<rightharpoonup> tv"
  store_attr_mutations :: "mutable_local \<rightharpoonup> (string \<rightharpoonup> tv)"
  keepalive :: "nat list"

text \<open>
  The checkpoint that \<^verbatim>\<open>copy_graphstate\<close> returns, with the fields the source
  reads and replaces: \<^verbatim>\<open>state.output\<close> (here \<open>tx_output\<close>) with its guard state, module table, side
  effects, timestamp, input names and graph arguments, and the rest of the
  translator's state (the symbolic locals, and \<open>frame\<close> for the stack and the
  instruction pointer). The module table is a dictionary from names to modules,
  among them the sub-graphs that \<^verbatim>\<open>cond\<close> registers; it is \<open>None\<close> after
  \<^verbatim>\<open>nn_modules=None\<close>.
\<close>

datatype nn_module =
    Module nat
  | GraphModule "(string \<times> nn_module) list option" "node list"

record output_graph_state =
  graphargs :: "nat list"
  guard_state :: "guard set"
  nn_modules :: "(string \<times> nn_module) list option"
  side_effects :: side_effects
  timestamp :: nat
  name_to_input :: "(nat \<times> nat) list"

record graphstate =
  tx_output :: output_graph_state
  symbolic_locals :: "string \<rightharpoonup> tv"
  frame :: nat

text \<open>The translator \<^verbatim>\<open>tx\<close>: the live fragment \<^verbatim>\<open>tx.output.graph\<close> and the rest.\<close>

record tx =
  graph :: "node list"
  state :: graphstate

text \<open>
  Modelled from the spec: \<^verbatim>\<open>create_proxy\<close>, \<^verbatim>\<open>create_node\<close> and
  \<^verbatim>\<open>create_graph_input\<close> of the output graph builder (not among the sources) append
  a node to the live fragment; the proxy of a node is its position there.
  \<^verbatim>\<open>copy_graphstate\<close> takes the checkpoint and \<^verbatim>\<open>restore_graphstate\<close> puts it back.
\<close>

definition create_proxy ::
  "tx \<Rightarrow> opcode \<Rightarrow> target \<Rightarrow> parg list \<Rightarrow> (string \<times> parg) list \<Rightarrow> nat \<times> tx" where
  "create_proxy t kind tgt pargs pkwargs =
     (length (graph t),
      t\<lparr>graph := graph t @
         [\<lparr>opcode = kind, target = tgt, n_args = pargs, n_kwargs = pkwargs\<rparr>]\<rparr>)"

definition create_node ::
  "tx \<Rightarrow> opcode \<Rightarrow> target \<Rightarrow> parg list \<Rightarrow> (string \<times> parg) list \<Rightarrow> tx" where
  "create_node t kind tgt pargs pkwargs = snd (create_proxy t kind tgt pargs pkwargs)"

definition create_graph_input :: "tx \<Rightarrow> nat \<Rightarrow> tx" where
  "create_graph_input t name = create_node t Placeholder (Input name) [] []"

definition copy_graphstate :: "tx \<Rightarrow> graphstate" where
  "copy_graphstate t = state t"

definition restore_graphstate :: "graphstate \<Rightarrow> tx \<Rightarrow> tx" where
  "restore_graphstate c t = t\<lparr>state := c\<rparr>"

section \<open>The collaborators of the classifier\<close>

text \<open>
  The configuration and the functions of other modules that the source calls, as the
  fields of one record:
  \<^item> \<open>constant_functions\<close>, \<open>dynamic_shapes\<close>: \<^verbatim>\<open>config.constant_functions\<close> and
    \<^verbatim>\<open>config.dynamic_shapes\<close>;
  \<^item> \<open>distributed_available\<close>: \<^verbatim>\<open>torch.distributed.is_available()\<close> at import;
  \<^item> \<open>HAS_NUMPY\<close>: the flag of utils.py;
  \<^item> \<open>py_call\<close>: calling the library function on concrete values, which may raise;
  \<^item> \<open>wrap_fx_proxy\<close>: builder.py's wrapping of a new proxy (given the fragment, the
    proxy, the example value if one is passed and the options), which may raise;
  \<^item> \<open>unpack_other\<close>: \<^verbatim>\<open>unpack_var_sequence\<close> of the values that are neither
    sequences nor constants (\<open>None\<close> when it raises \<^verbatim>\<open>NotImplementedError\<close>);
  \<^item> \<open>call_method\<close>: \<^verbatim>\<open>TensorVariable.call_method\<close>;
  \<^item> \<open>grad_mode_create\<close>, \<open>guards_singleton\<close>, \<open>grad_enabled\<close>:
    \<^verbatim>\<open>GradModeVariable.create\<close>, \<^verbatim>\<open>GradModeVariable._guards_singleton\<close> and
    \<^verbatim>\<open>torch.is_grad_enabled()\<close>;
  \<^item> \<open>autocast_create\<close>: \<^verbatim>\<open>AutocastModeVariable.create\<close>;
  \<^item> \<open>inline_torch_function_unwrapped\<close>: the inlining of a \<^verbatim>\<open>__torch_function__\<close>
    override, and \<open>nowrap_function\<close>: membership in
    \<^verbatim>\<open>torch.overrides.get_default_nowrap_functions()\<close>;
  \<^item> \<open>cudnn_is_acceptable\<close>: \<^verbatim>\<open>torch.backends.cudnn.is_acceptable\<close> on
    \<^verbatim>\<open>torch.tensor(0, dtype=..., device=...)\<close>;
  \<^item> \<open>generator_state\<close>: the example value \<^verbatim>\<open>self.value()\<close> of a generator's
    \<^verbatim>\<open>get_state\<close>;
  \<^item> \<open>find_symbolic_locals_name\<close>: the translator's reverse lookup of a value in
    the symbolic locals;
  \<^item> \<open>inline_call\<close>: \<^verbatim>\<open>call_function\<close> of a user function value, which traces
    its body;
  \<^item> \<open>prune_dead_object_new\<close>: the side effects left by
    \<^verbatim>\<open>side_effects.prune_dead_object_new(tx)\<close>;
  \<^item> \<open>diff\<close>: the \<^verbatim>\<open>diff\<close> method of the checkpoint, the text that describes
    how two states differ.
\<close>

record env =
  constant_functions :: "torch_fn \<rightharpoonup> pyval"
  dynamic_shapes :: bool
  distributed_available :: bool
  HAS_NUMPY :: bool
  py_call :: "torch_fn \<Rightarrow> pyval list \<Rightarrow> (string \<times> pyval) list \<Rightarrow> exc + pyval"
  wrap_fx_proxy :: "node list \<Rightarrow> nat \<Rightarrow> nat option \<Rightarrow> options \<Rightarrow> exc + tv"
  unpack_other :: "tv \<Rightarrow> tv list option"
  call_method :: "tx \<Rightarrow> tv \<Rightarrow> string \<Rightarrow> (exc + tv) \<times> tx"
  grad_mode_create :: "tx \<Rightarrow> pyval \<Rightarrow> options \<Rightarrow> (exc + tv) \<times> tx"
  guards_singleton :: "guard set"
  grad_enabled :: bool
  autocast_create :: "tv list \<Rightarrow> (string \<times> tv) list \<Rightarrow> exc + tv"
  inline_torch_function_unwrapped ::
    "tx \<Rightarrow> torch_fn \<Rightarrow> options \<Rightarrow> nat \<Rightarrow> options \<Rightarrow> tv list \<Rightarrow> (string \<times> tv) list
       \<Rightarrow> (exc + tv) \<times> tx"
  nowrap_function :: "torch_fn \<Rightarrow> bool"
  cudnn_is_acceptable :: "dtype option \<Rightarrow> device option \<Rightarrow> exc + bool"
  generator_state :: "torch_fn \<Rightarrow> nat"
  find_symbolic_locals_name :: "(string \<rightharpoonup> tv) \<Rightarrow> tv \<Rightarrow> string option"
  inline_call :: "tx \<Rightarrow> tv \<Rightarrow> tv list \<Rightarrow> (exc + tv) \<times> tx"
  prune_dead_object_new :: "tx \<Rightarrow> side_effects"
  diff :: "graphstate \<Rightarrow> graphstate \<Rightarrow> string"


section \<open>The operator classifier\<close>

abbreviation raise :: "exc \<Rightarrow> tx \<Rightarrow> (exc + 'a) \<times> tx" where
  "raise ex t \<equiv> (Inl ex, t)"

abbreviation return :: "'a \<Rightarrow> tx \<Rightarrow> (exc + 'a) \<times> tx" where
  "return v t \<equiv> (Inr v, t)"

definition constant_fold_functions :: "env \<Rightarrow> torch_fn list" where
  "constant_fold_functions e =
     [Torch_assert, Torch_get_device_index, Torch_cuda_is_available, Torch_device,
      Torch_distributed_is_available, Torch_finfo, Torch_get_default_dtype, Torch_iinfo,
      Torch_is_floating_point, Torch_Reduction_get_enum] @
     (if distributed_available e then [Torch_distributed_is_initialized] else [])"

definition can_constant_fold_through :: "env \<Rightarrow> torch_fn \<Rightarrow> bool" where
  "can_constant_fold_through e f \<longleftrightarrow>
     (if f \<in> set (constant_fold_functions e) then True
      else fn_module f = Some ''math'')"

text \<open>
  The constant-folding branch: specialize the arguments, call the function on their
  constants, wrap the result. An exception of the call is the result.
\<close>

definition constant_fold ::
  "env \<Rightarrow> torch_fn \<Rightarrow> tv list \<Rightarrow> (string \<times> tv) list \<Rightarrow> options \<Rightarrow> exc + tv" where
  "constant_fold e f args kwargs options =
     (let (args', kwargs') = specialize_args_kwargs args kwargs in
      if list_all is_python_constant (args' @ map snd kwargs') then
        (case py_call e f (map (\<lambda>x. the (as_python_constant x)) args')
                (map (\<lambda>(k, v). (k, the (as_python_constant v))) kwargs') of
           Inl ex \<Rightarrow> Inl ex
         | Inr v \<Rightarrow> Inr (ConstantVariable v options))
      else Inl NotImplementedError)"

text \<open>
  Binding the arguments of a call to the parameters of a local Python function
  (each with its default, if it has one): \<^verbatim>\<open>TypeError\<close> for too many positional
  arguments, for a parameter given twice and for a missing one.
\<close>

fun bind_params ::
  "string \<Rightarrow> (string \<times> tv option) list \<Rightarrow> tv list \<Rightarrow> (string \<times> tv) list \<Rightarrow> exc + tv list" where
  "bind_params fname [] args kwargs =
     (if args = [] then Inr [] else Inl (TypeError fname))"
| "bind_params fname ((p, d) # ps) [] kwargs =
     (case (case map_of kwargs p of Some v \<Rightarrow> Some v | None \<Rightarrow> d) of
        None \<Rightarrow> Inl (TypeError fname)
      | Some v \<Rightarrow>
          (case bind_params fname ps [] kwargs of
             Inl ex \<Rightarrow> Inl ex
           | Inr vs \<Rightarrow> Inr (v # vs)))"
| "bind_params fname ((p, d) # ps) (a # as) kwargs =
     (if map_of kwargs p \<noteq> None then Inl (TypeError fname)
      else (case bind_params fname ps as kwargs of
              Inl ex \<Rightarrow> Inl ex
            | Inr vs \<Rightarrow> Inr (a # vs)))"

definition none :: tv where
  "none = ConstantVariable PyNone {}"

definition has_non_const :: "tv list \<Rightarrow> bool" where
  "has_non_const it \<longleftrightarrow> \<not> list_all is_python_constant it"

definition is_dynamic_shapes ::
  "torch_fn \<Rightarrow> tv list \<Rightarrow> (string \<times> tv) list \<Rightarrow> exc + bool" where
  "is_dynamic_shapes f args kwargs =
     (if f \<in> {Torch_nonzero, Torch_unique, Torch_unique_consecutive} \<or> fn_name f \<in> {''nms''}
      then Inr True
      else if f = Torch_where \<and> length args + length kwargs = 1 then Inr True
      else if f = Torch_arange then
        (case bind_params ''arange''
                [(''start'', Some none), (''end'', Some none), (''step'', Some none)]
                args kwargs of
           Inl ex \<Rightarrow> Inl ex
         | Inr vs \<Rightarrow> Inr (has_non_const vs))
      else if f = Torch_repeat_interleave then
        (case bind_params ''repeat_interleave''
                [(''input'', None), (''repeats'', None), (''dim'', Some none)]
                args kwargs of
           Inl ex \<Rightarrow> Inl ex
         | Inr vs \<Rightarrow> Inr (has_non_const [vs ! 1]))
      else Inr False)"

definition call_softmax ::
  "torch_fn \<Rightarrow> options \<Rightarrow> tv list \<Rightarrow> (string \<times> tv) list \<Rightarrow> options \<Rightarrow> tv" where
  "call_softmax f sg args kwargs options =
     (let dim = (case args of
                   a # _ \<Rightarrow> a
                 | [] \<Rightarrow> (case map_of kwargs ''dim'' of Some v \<Rightarrow> v | None \<Rightarrow> none))
      in LambdaVariable Fake_softmax [TorchVariable f sg, dim] options)"

definition normalize_args_params :: "(string \<times> tv option) list" where
  "normalize_args_params =
     [(''weight'', Some (ConstantVariable PyNone {})),
      (''size_average'', Some (ConstantVariable PyNone {})),
      (''ignore_index'', Some (ConstantVariable (PyInt (- 100)) {})),
      (''reduce'', Some (ConstantVariable PyNone {})),
      (''reduction'', Some (ConstantVariable (PyStr ''mean'') {})),
      (''label_smoothing'', Some (ConstantVariable (PyFloat 0 0) {}))]"

definition call_cross_entropy_loss ::
  "torch_fn \<Rightarrow> options \<Rightarrow> tv list \<Rightarrow> (string \<times> tv) list \<Rightarrow> options \<Rightarrow> exc + tv" where
  "call_cross_entropy_loss f sg args kwargs options =
     (if \<not> list_all (\<lambda>(k, v). k \<in> set (map fst normalize_args_params)) kwargs
      then Inl (TypeError ''normalize_args'')
      else (case bind_params ''normalize_args'' normalize_args_params args kwargs of
              Inl ex \<Rightarrow> Inl ex
            | Inr vs \<Rightarrow>
                Inr (LambdaVariable Fake_cross_entropy_loss (TorchVariable f sg # vs) options)))"

subsection \<open>The tuple-normalizing constructors\<close>

fun py_iter :: "pyval \<Rightarrow> pyval list option" where
  "py_iter (PyTuple xs) = Some xs"
| "py_iter (PyList xs) = Some xs"
| "py_iter (PyStr s) = Some (map (\<lambda>c. PyStr [c]) s)"
| "py_iter _ = None"

text \<open>
  Modelled from the spec: \<^verbatim>\<open>torch.nn.modules.utils._ntuple(n)\<close> (not among the
  sources) returns an iterable argument as a tuple and broadcasts any other argument
  to a tuple of \<open>n\<close> copies.
\<close>

definition ntuple_parse :: "int \<Rightarrow> pyval \<Rightarrow> pyval" where
  "ntuple_parse n x =
     (case py_iter x of
        Some xs \<Rightarrow> PyTuple xs
      | None \<Rightarrow> PyTuple (replicate (nat n) x))"

text \<open>
  Modelled from the spec: \<^verbatim>\<open>unpack_var_sequence\<close> of the variable classes (not
  among the sources). A sequence value unpacks into its items, a constant into the
  constants of the elements of its value when that is iterable; the other classes
  are left to \<open>unpack_other\<close>.
\<close>

fun unpack_var_sequence :: "env \<Rightarrow> tv \<Rightarrow> tv list option" where
  "unpack_var_sequence e (TupleVariable xs g) = Some xs"
| "unpack_var_sequence e (ListVariable xs g) = Some xs"
| "unpack_var_sequence e (ConstantVariable v g) =
     (case py_iter v of
        Some xs \<Rightarrow> Some (map (\<lambda>x. ConstantVariable x g) xs)
      | None \<Rightarrow> None)"
| "unpack_var_sequence e v = unpack_other e v"

definition has_unpack_var_sequence :: "env \<Rightarrow> tv \<Rightarrow> bool" where
  "has_unpack_var_sequence e v \<longleftrightarrow> unpack_var_sequence e v \<noteq> None"

text \<open>
  The local function \<^verbatim>\<open>handle_ntuple\<close>; \<open>captured\<close> are \<^verbatim>\<open>self\<close>, \<^verbatim>\<open>args\<close> and
  the values of \<^verbatim>\<open>kwargs\<close>, whose guards it propagates with those of \<^verbatim>\<open>value\<close>.
  The message of the last case leaves out the text of the value.
\<close>

definition handle_ntuple :: "env \<Rightarrow> int \<Rightarrow> tv list \<Rightarrow> tv \<Rightarrow> exc + tv" where
  "handle_ntuple e count captured value =
     (if has_unpack_var_sequence e value then
        Inr (TupleVariable (the (unpack_var_sequence e value)) (propagate (value # captured)))
      else if is_python_constant value then
        Inr (ConstantVariable (ntuple_parse count (the (as_python_constant value)))
               (propagate (value # captured)))
      else Inl (Unsupported ''torch.nn.modules.utils._ntuple''))"

text \<open>\<^verbatim>\<open>self.value.__closure__[0].cell_contents\<close> of the four fixed constructors.\<close>

fun closure_count :: "torch_fn \<Rightarrow> pyval" where
  "closure_count Utils_single = PyInt 1"
| "closure_count Utils_pair = PyInt 2"
| "closure_count Utils_triple = PyInt 3"
| "closure_count Utils_quadruple = PyInt 4"
| "closure_count _ = PyNone"

text \<open>\<^verbatim>\<open>isinstance(count, int)\<close>: the integers and the booleans.\<close>

fun py_as_int :: "pyval \<Rightarrow> int option" where
  "py_as_int (PyInt n) = Some n"
| "py_as_int (PyBool b) = Some (if b then 1 else 0)"
| "py_as_int _ = None"

definition call_ntuple ::
  "env \<Rightarrow> torch_fn \<Rightarrow> options \<Rightarrow> tv list \<Rightarrow> (string \<times> tv) list \<Rightarrow> options \<Rightarrow> exc + tv" where
  "call_ntuple e f sg args kwargs options =
     (case (if f = Utils_ntuple then
              (case args of
                 [] \<Rightarrow> Inl IndexError
               | a # _ \<Rightarrow> (case as_python_constant a of
                             None \<Rightarrow> Inl NotImplementedError
                           | Some c \<Rightarrow> Inr c))
            else Inr (closure_count f)) of
        Inl ex \<Rightarrow> Inl ex
      | Inr c \<Rightarrow>
          (case py_as_int c of
             None \<Rightarrow> Inl (AssertionError [])
           | Some count \<Rightarrow>
               (let captured = TorchVariable f sg # args @ map snd kwargs in
                if f = Utils_ntuple then Inr (LambdaVariable (Handle_ntuple count) captured options)
                else (case args of
                        [] \<Rightarrow> Inl IndexError
                      | a # _ \<Rightarrow> handle_ntuple e count captured a))))"


subsection \<open>The bodies of the other branches\<close>

fun has_torch_function :: "tv \<Rightarrow> bool" where
  "has_torch_function (UserDefinedObjectVariable i h g) = h"
| "has_torch_function _ = False"

definition call_is_tensor :: "torch_fn \<Rightarrow> tv list \<Rightarrow> options \<Rightarrow> exc + tv" where
  "call_is_tensor f args options =
     (if length args \<noteq> 1 then Inl (AssertionError [])
      else if is_TensorVariable (hd args) \<or>
              (f = Torch_is_tensor_like \<and> has_torch_function (hd args))
      then Inr (ConstantVariable (PyBool True) options)
      else Inr (ConstantVariable (PyBool False) options))"

definition call_dtype_predicate :: "torch_fn \<Rightarrow> tv list \<Rightarrow> options \<Rightarrow> exc + tv" where
  "call_dtype_predicate f args options =
     (if f = Torch_is_floating_point then
        Inr (ConstantVariable
               (PyBool (dtype_is_floating_point (the (dtype (the (the_tensor (hd args)))))))
               options)
      else if f = Torch_is_complex then
        Inr (ConstantVariable
               (PyBool (dtype_is_complex (the (dtype (the (the_tensor (hd args)))))))
               options)
      else Inl (AssertionError []))"

definition call_is_acceptable ::
  "env \<Rightarrow> tv list \<Rightarrow> (string \<times> tv) list \<Rightarrow> options \<Rightarrow> exc + tv" where
  "call_is_acceptable e args kwargs options =
     (if \<not> (length args = 1 \<or> map_of kwargs ''tensor'' \<noteq> None)
      then Inl (AssertionError ''Expect 1 input to cudnn.is_acceptable'')
      else
        (let tensor_variable =
               (if length args > 0 then hd args else the (map_of kwargs ''tensor''))
         in if \<not> is_TensorVariable tensor_variable
            then Inl (AssertionError ''Expect input to cudnn.is_acceptable to be a tensor'')
            else (case cudnn_is_acceptable e
                         (dtype (the (the_tensor tensor_variable)))
                         (device (the (the_tensor tensor_variable))) of
                    Inl ex \<Rightarrow> Inl ex
                  | Inr b \<Rightarrow> Inr (ConstantVariable (PyBool b) options))))"

text \<open>
  Inlining the \<^verbatim>\<open>__torch_function__\<close> override of the first argument. The
  branch is entered only when the first argument is such a value; the second equation
  completes the function.
\<close>

fun call_tf_override ::
  "env \<Rightarrow> tx \<Rightarrow> torch_fn \<Rightarrow> options \<Rightarrow> tv list \<Rightarrow> (string \<times> tv) list \<Rightarrow> options
     \<Rightarrow> (exc + tv) \<times> tx" where
  "call_tf_override e t f sg (TensorWithTFOverrideVariable tensor_variable meta g # args)
       kwargs options =
     (case inline_torch_function_unwrapped e t f sg meta options (tensor_variable # args)
             kwargs of
        (Inl ex, t1) \<Rightarrow> raise ex t1
      | (Inr unwrapped, t1) \<Rightarrow>
          if nowrap_function e f then return unwrapped t1
          else return (TensorWithTFOverrideVariable unwrapped meta {}) t1)"
| "call_tf_override e t f sg args kwargs options = raise IndexError t"

definition call_get_state ::
  "env \<Rightarrow> tx \<Rightarrow> torch_fn \<Rightarrow> tv list \<Rightarrow> (string \<times> tv) list \<Rightarrow> options \<Rightarrow> (exc + tv) \<times> tx" where
  "call_get_state e t f args kwargs options =
     (case proxy_args_kwargs args kwargs of
        Inl ex \<Rightarrow> raise ex t
      | Inr (pargs, pkwargs) \<Rightarrow>
          (let (p, t1) = create_proxy t Call_function (Local_fn ''get_state_from_generator'')
                           pargs pkwargs
           in (wrap_fx_proxy e (graph t1) p (Some (generator_state e f)) options, t1)))"

definition call_set_state :: "tv list \<Rightarrow> exc" where
  "call_set_state args =
     (if length args \<noteq> 1 then AssertionError []
      else if \<not> is_TensorVariable (hd args) then AssertionError []
      else Unsupported
        ''TODO: make torch.random.set_rng_state work with FakeTensor/aot_autograd'')"

definition call_numel_method ::
  "env \<Rightarrow> tx \<Rightarrow> tv list \<Rightarrow> (string \<times> tv) list \<Rightarrow> options \<Rightarrow> (exc + tv) \<times> tx" where
  "call_numel_method e t args kwargs options =
     (case proxy_args_kwargs args kwargs of
        Inl ex \<Rightarrow> raise ex t
      | Inr (pargs, pkwargs) \<Rightarrow>
          (let (p, t1) = create_proxy t Call_method (Name ''numel'') pargs pkwargs
           in (wrap_fx_proxy e (graph t1) p None options, t1)))"

subsection \<open>The generic fallback\<close>

definition bin_ops :: "string set" where
  "bin_ops = {''add'', ''sub'', ''mul'', ''div'', ''sqrt''}"

text \<open>
  The coercion of numpy scalars in a constant list: \<^verbatim>\<open>x.value\<close> exists for a
  constant and for a \<^verbatim>\<open>TorchVariable\<close>, a nested constant sequence has none.
\<close>

fun coerce_item :: "tv \<Rightarrow> exc + tv" where
  "coerce_item (ConstantVariable (PyNumpy v) g) = Inr (ConstantVariable v g)"
| "coerce_item (ConstantVariable v g) = Inr (ConstantVariable v g)"
| "coerce_item (TorchVariable f g) = Inr (TorchVariable f g)"
| "coerce_item x = Inl (AttributeError ''value'')"

fun coerce_items :: "tv list \<Rightarrow> exc + tv list" where
  "coerce_items [] = Inr []"
| "coerce_items (x # xs) =
     (case coerce_item x of
        Inl ex \<Rightarrow> Inl ex
      | Inr y \<Rightarrow> (case coerce_items xs of Inl ex \<Rightarrow> Inl ex | Inr ys \<Rightarrow> Inr (y # ys)))"

fun is_tensortype :: "torch_fn \<Rightarrow> bool" where
  "is_tensortype (Torch_tensortype d) = True"
| "is_tensortype _ = False"

fun coerce_numpy_args :: "env \<Rightarrow> torch_fn \<Rightarrow> tv list \<Rightarrow> exc + tv list" where
  "coerce_numpy_args e f [ListVariable items g] =
     (if HAS_NUMPY e \<and> is_tensortype f \<and> is_python_constant (ListVariable items g)
      then (case coerce_items items of
              Inl ex \<Rightarrow> Inl ex
            | Inr items' \<Rightarrow> Inr [ListVariable items' g])
      else Inr [ListVariable items g])"
| "coerce_numpy_args e f args = Inr args"

text \<open>
  Rebinding the names of the \<^verbatim>\<open>out=\<close> targets to the items of a tuple result:
  the loop over \<^verbatim>\<open>enumerate(output_tensor_names)\<close>.
\<close>

fun rebind_outputs :: "tx \<Rightarrow> string option list \<Rightarrow> tv list \<Rightarrow> exc option \<times> tx" where
  "rebind_outputs t [] items = (None, t)"
| "rebind_outputs t (name # names) items =
     (case name of
        None \<Rightarrow> (Some (AssertionError []), t)
      | Some n \<Rightarrow>
          if n \<notin> dom (symbolic_locals (state t)) then (Some (AssertionError []), t)
          else (case items of
                  [] \<Rightarrow> (Some IndexError, t)
                | item # rest \<Rightarrow>
                    rebind_outputs
                      (t\<lparr>state := (state t)\<lparr>symbolic_locals :=
                            (symbolic_locals (state t))(n \<mapsto> item)\<rparr>\<rparr>)
                      names rest))"

fun items_of :: "tv \<Rightarrow> tv list" where
  "items_of (TupleVariable xs g) = xs"
| "items_of (ListVariable xs g) = xs"
| "items_of _ = []"

text \<open>The name of the class of a value, for the message of the last case.\<close>

fun class_name :: "tv \<Rightarrow> string" where
  "class_name (ConstantVariable v g) = ''ConstantVariable''"
| "class_name (TensorVariable t g) = ''TensorVariable''"
| "class_name (UnspecializedPythonVariable t v g) = ''UnspecializedPythonVariable''"
| "class_name (DynamicShapeVariable p g) = ''DynamicShapeVariable''"
| "class_name (TupleVariable xs g) = ''TupleVariable''"
| "class_name (ListVariable xs g) = ''ListVariable''"
| "class_name (LambdaVariable f c g) = ''LambdaVariable''"
| "class_name (UserDefinedObjectVariable i h g) = ''UserDefinedObjectVariable''"
| "class_name (TensorWithTFOverrideVariable t m g) = ''TensorWithTFOverrideVariable''"
| "class_name (TorchVariable f g) = ''TorchVariable''"
| "class_name (GradModeVariable b g) = ''GradModeVariable''"
| "class_name (AutocastModeVariable a g) = ''AutocastModeVariable''"
| "class_name (NullContextVariable g) = ''NullContextVariable''"
| "class_name (NewCellVariable g) = ''NewCellVariable''"
| "class_name (UserFunctionVariable f g) = ''UserFunctionVariable''"
| "class_name (NestedUserFunctionVariable f g) = ''NestedUserFunctionVariable''"
| "class_name (OtherVariable i g) = ''OtherVariable''"

text \<open>The block \<^verbatim>\<open>if "out" in kwargs\<close> after the node has been made.\<close>

definition rewrite_out ::
  "env \<Rightarrow> tx \<Rightarrow> tv \<Rightarrow> tv \<Rightarrow> (exc + tv) \<times> tx" where
  "rewrite_out e t tensor_variable out =
     (if is_TupleVariable tensor_variable then
        (if \<not> is_TupleVariable out then raise (AssertionError []) t
         else
           (let output_tensor_names =
                  map (find_symbolic_locals_name e (symbolic_locals (state t))) (items_of out)
            in case rebind_outputs t output_tensor_names (items_of tensor_variable) of
                 (Some ex, t1) \<Rightarrow> raise ex t1
               | (None, t1) \<Rightarrow> return tensor_variable t1))
      else if is_TensorVariable tensor_variable then
        (if \<not> is_TensorVariable out then raise (AssertionError []) t
         else
           (case find_symbolic_locals_name e (symbolic_locals (state t)) out of
              None \<Rightarrow> raise (AssertionError []) t
            | Some name \<Rightarrow>
                if name \<notin> dom (symbolic_locals (state t)) then raise (AssertionError []) t
                else return tensor_variable
                       (t\<lparr>state := (state t)\<lparr>symbolic_locals :=
                             (symbolic_locals (state t))(name \<mapsto> tensor_variable)\<rparr>\<rparr>)))
      else raise (Unsupported (''out variant of '' @ class_name out)) t)"

text \<open>
  The final \<^verbatim>\<open>else\<close> of \<^verbatim>\<open>call_function\<close>. The message of the first case is
  the first line of the source's, with the name of the function for its text.
\<close>

definition call_generic ::
  "env \<Rightarrow> tx \<Rightarrow> torch_fn \<Rightarrow> tv list \<Rightarrow> (string \<times> tv) list \<Rightarrow> options \<Rightarrow> (exc + tv) \<times> tx" where
  "call_generic e t f args kwargs options =
     (let any_symints_or_symfloats = list_ex is_DynamicShapeVariable args;
          all_ints_or_floats =
            list_all (\<lambda>x. is_ConstantVariable x \<or> is_DynamicShapeVariable x) args
      in
      if fn_module f = Some ''torch'' \<and> fn_name f \<in> bin_ops \<and>
         any_symints_or_symfloats \<and> all_ints_or_floats
      then raise (Unsupported (''Calling '' @ fn_name f @
                    '' on only torch.SymInt arguments is not yet supported.'')) t
      else
        (case coerce_numpy_args e f args of
           Inl ex \<Rightarrow> raise ex t
         | Inr args' \<Rightarrow>
             (let fn' = (if list_ex is_DynamicShapeVariable args' \<and> f = Math_sqrt
                         then Sym_sqrt else f)
              in case proxy_args_kwargs args' kwargs of
                   Inl ex \<Rightarrow> raise ex t
                 | Inr (pargs, pkwargs) \<Rightarrow>
                     (let (p, t1) = create_proxy t Call_function (Fn fn') pargs pkwargs
                      in case wrap_fx_proxy e (graph t1) p None options of
                           Inl ex \<Rightarrow> raise ex t1
                         | Inr tensor_variable \<Rightarrow>
                             (case map_of kwargs ''out'' of
                                Some out \<Rightarrow> rewrite_out e t1 tensor_variable out
                              | None \<Rightarrow> return tensor_variable t1)))))"


subsection \<open>\<^verbatim>\<open>TorchVariable.call_function\<close>\<close>

text \<open>
  The chain of \<^verbatim>\<open>if\<close>/\<^verbatim>\<open>elif\<close> of \<^verbatim>\<open>call_function\<close>, in the order of the
  source, for \<^verbatim>\<open>self.value = f\<close> and \<^verbatim>\<open>self.guards = sg\<close>. Every branch returns
  or raises, except the decomposition of \<^verbatim>\<open>addcdiv\<close>, which calls
  \<^verbatim>\<open>call_function\<close> again: there \<open>dispatch\<close> is \<open>None\<close>, and \<open>call_function\<close>
  below makes the three calls.
\<close>

definition dispatch ::
  "env \<Rightarrow> tx \<Rightarrow> torch_fn \<Rightarrow> options \<Rightarrow> tv list \<Rightarrow> (string \<times> tv) list
     \<Rightarrow> ((exc + tv) \<times> tx) option" where
  "dispatch e t f sg args kwargs =
     (let constant_args = check_constant_args args kwargs;
          unspec_python_args = check_unspec_python_args args kwargs;
          options = propagate (TorchVariable f sg # args @ map snd kwargs)
      in
      if f \<in> dom (constant_functions e) then
        (if args = [] \<and> kwargs = []
         then Some (return (ConstantVariable (the (constant_functions e f)) options) t)
         else Some (raise (AssertionError []) t))
      else if can_constant_fold_through e f \<and> (constant_args \<or> unspec_python_args) then
        Some (constant_fold e f args kwargs options, t)
      else if is_nn_module_type f then
        (if f = NN_Softmax then Some (return (call_softmax f sg args kwargs options) t)
         else if f = NN_CrossEntropyLoss
         then Some (call_cross_entropy_loss f sg args kwargs options, t)
         else Some (raise (Unsupported (''construct nn.Module: '' @ fn_name f)) t))
      else if f \<in> {Torch_is_tensor, Torch_is_tensor_like} then
        Some (call_is_tensor f args options, t)
      else if f \<in> {Torch_is_floating_point, Torch_is_complex} \<and> args = [] then
        Some (raise IndexError t)
      else if f \<in> {Torch_is_floating_point, Torch_is_complex} \<and>
              is_TensorVariable (hd args) \<and> dtype (the (the_tensor (hd args))) \<noteq> None then
        Some (call_dtype_predicate f args options, t)
      else if f = Torch_numel \<and> args = [] then
        Some (raise IndexError t)
      else if f = Torch_numel \<and> is_TensorVariable (hd args) \<and>
              tsize (the (the_tensor (hd args))) \<noteq> None then
        Some (return (ConstantVariable
                        (PyInt (int (prod_list (the (tsize (the (the_tensor (hd args))))))))
                        options) t)
      else if f \<in> {Onnx_shape_as_tensor, Torch_shape_as_tensor} then
        (if length args \<noteq> 1 then Some (raise (AssertionError []) t)
         else if \<not> is_TensorVariable (hd args) then Some (raise (AssertionError []) t)
         else Some (call_method e t (hd args) ''size''))
      else if f \<in> {Utils_single, Utils_pair, Utils_triple, Utils_quadruple, Utils_ntuple} then
        Some (call_ntuple e f sg args kwargs options, t)
      else if f = Torch_no_grad then Some (grad_mode_create e t (PyBool False) options)
      else if f = Torch_enable_grad then Some (grad_mode_create e t (PyBool True) options)
      else if f = Torch_set_grad_enabled \<and> length args = 1 then
        (case as_python_constant (hd args) of
           None \<Rightarrow> Some (raise NotImplementedError t)
         | Some v \<Rightarrow> Some (grad_mode_create e t v options))
      else if f = Torch_is_grad_enabled then
        (if args = [] \<and> kwargs = []
         then Some (return (ConstantVariable (PyBool (grad_enabled e))
                              (options \<union> guards_singleton e)) t)
         else Some (raise (AssertionError []) t))
      else
        (case (if dynamic_shapes e then Inr False else is_dynamic_shapes f args kwargs) of
           Inl ex \<Rightarrow> Some (raise ex t)
         | Inr True \<Rightarrow> Some (raise (Unsupported (''dynamic shapes: '' @ fn_name f)) t)
         | Inr False \<Rightarrow>
             if length args > 0 \<and> is_TensorWithTFOverrideVariable (hd args) then
               Some (call_tf_override e t f sg args kwargs options)
             else if f = Torch_autocast then Some (autocast_create e args kwargs, t)
             else if f \<in> {Profiler_profile, Profiler_record_function,
                           Autograd_profiler_profile, Autograd_profiler_record_function} then
               Some (return (NullContextVariable options) t)
             else if f = Autograd_profiler_enabled then
               Some (raise (Unsupported
                      ''torch.autograd._profiler_enabled not supported yet'') t)
             else if f = Jit_annotate then
               (if length args = 2 then Some (return (args ! 1) t)
                else Some (raise (AssertionError []) t))
             else if f = Cudnn_is_acceptable then
               Some (call_is_acceptable e args kwargs options, t)
             else if fn_name f = ''get_state'' \<and> self_is_generator f then
               Some (call_get_state e t f args kwargs options)
             else if (fn_name f = ''set_state'' \<and> self_is_generator f) \<or>
                     f = Torch_set_rng_state then
               Some (raise (call_set_state args) t)
             else if f = Torch_numel \<and> length args = 1 \<and> is_TensorVariable (hd args) \<and>
                     length kwargs = 0 then
               Some (call_numel_method e t args kwargs options)
             else if f = Torch_addcdiv \<and> length args = 3 \<and>
                     map_of kwargs ''value'' \<noteq> None \<and> length kwargs = 1 then
               None
             else Some (call_generic e t f args kwargs options)))"

function call_function ::
  "env \<Rightarrow> tx \<Rightarrow> torch_fn \<Rightarrow> options \<Rightarrow> tv list \<Rightarrow> (string \<times> tv) list \<Rightarrow> (exc + tv) \<times> tx" where
  "call_function e t f sg args kwargs =
     (case dispatch e t f sg args kwargs of
        Some r \<Rightarrow> r
      | None \<Rightarrow>
          (let options = propagate (TorchVariable f sg # args @ map snd kwargs) in
           case call_function e t Torch_div options (tl args) [] of
             (Inl ex, t1) \<Rightarrow> raise ex t1
           | (Inr result, t1) \<Rightarrow>
               (case call_function e t1 Torch_mul options
                       [result, the (map_of kwargs ''value'')] [] of
                  (Inl ex, t2) \<Rightarrow> raise ex t2
                | (Inr result', t2) \<Rightarrow>
                    call_function e t2 Torch_add options [hd args, result'] [])))"
  by pat_completeness auto
termination
proof -
  have ne: "((if c then x else y) \<noteq> None) = ((c \<longrightarrow> x \<noteq> None) \<and> (\<not> c \<longrightarrow> y \<noteq> None))"
    for c and x y :: "((exc + tv) \<times> tx) option"
    by simp
  have addcdiv: "f = Torch_addcdiv" if none: "dispatch e t f sg args kwargs = None"
    for e t f sg args kwargs
  proof (rule ccontr)
    assume "f \<noteq> Torch_addcdiv"
    then have f: "(f = Torch_addcdiv) = False" by simp
    have "dispatch e t f sg args kwargs \<noteq> None"
      unfolding dispatch_def Let_def
      by (simp only: ne f option.distinct simp_thms not_False_eq_True
            split: sum.split bool.split option.split)
    with none show False by simp
  qed
  show ?thesis
    by (relation "measure (\<lambda>(e, t, f, sg, args, kwargs). if f = Torch_addcdiv then 1 else 0)")
       (auto dest: addcdiv)
qed

declare call_function.simps [simp del]


section \<open>The branch speculator\<close>

text \<open>The decimal digits of a number, as the f-string \<^verbatim>\<open>f"cond_{name}_{i}"\<close> prints it.\<close>

function string_of_nat :: "nat \<Rightarrow> string" where
  "string_of_nat n =
     (if n < 10 then [char_of (48 + n)]
      else string_of_nat (n div 10) @ [char_of (48 + n mod 10)])"
  by pat_completeness auto
termination
  by (relation "measure id") auto

declare string_of_nat.simps [simp del]

definition candidate :: "string \<Rightarrow> nat \<Rightarrow> string" where
  "candidate name i = ''cond_'' @ name @ ''_'' @ string_of_nat i"

text \<open>
  The loop of \<^verbatim>\<open>add_subgraph\<close>, started at \<open>i\<close>: the first candidate that is not
  a key of the module table. It ends because the table is finite and the candidates
  are all different.
\<close>

function next_name :: "string \<Rightarrow> string list \<Rightarrow> nat \<Rightarrow> string" where
  "next_name name keys i =
     (if candidate name i \<in> set keys then next_name name keys (i + 1)
      else candidate name i)"
  by pat_completeness auto
termination
proof -
  have digit: "a = b" if "char_of (48 + a) = (char_of (48 + b) :: char)" "a < 10" "b < 10"
    for a b :: nat
  proof -
    from that(1) have "of_char (char_of (48 + a) :: char) = (of_char (char_of (48 + b) :: char) :: nat)"
      by simp
    then have "(48 + a) mod 256 = (48 + b) mod 256"
      by (simp only: of_char_of)
    with that(2,3) show ?thesis by simp
  qed
  have nonempty: "string_of_nat n \<noteq> []" for n
    by (subst string_of_nat.simps) simp
  have inj: "n = m" if "string_of_nat n = string_of_nat m" for n m
    using that
  proof (induction n arbitrary: m rule: string_of_nat.induct)
    case (1 n)
    show ?case
    proof (cases "n < 10")
      case True
      then have n: "string_of_nat n = [char_of (48 + n)]"
        by (subst string_of_nat.simps) simp
      show ?thesis
      proof (cases "m < 10")
        case mlt: True
        then have "string_of_nat m = [char_of (48 + m)]"
          by (subst string_of_nat.simps) simp
        with n "1.prems" have "char_of (48 + n) = (char_of (48 + m) :: char)" by simp
        then show ?thesis using True mlt by (rule digit)
      next
        case False
        then have "string_of_nat m = string_of_nat (m div 10) @ [char_of (48 + m mod 10)]"
          by (subst string_of_nat.simps) simp
        with n "1.prems" have "string_of_nat (m div 10) = []" by simp
        with nonempty show ?thesis by blast
      qed
    next
      case False
      then have n: "string_of_nat n = string_of_nat (n div 10) @ [char_of (48 + n mod 10)]"
        by (subst string_of_nat.simps) simp
      show ?thesis
      proof (cases "m < 10")
        case True
        then have "string_of_nat m = [char_of (48 + m)]"
          by (subst string_of_nat.simps) simp
        with n "1.prems" have "string_of_nat (n div 10) = []" by simp
        with nonempty show ?thesis by blast
      next
        case mge: False
        then have "string_of_nat m = string_of_nat (m div 10) @ [char_of (48 + m mod 10)]"
          by (subst string_of_nat.simps) simp
        with n "1.prems" have
          eq: "string_of_nat (n div 10) = string_of_nat (m div 10)"
          and last: "char_of (48 + n mod 10) = (char_of (48 + m mod 10) :: char)"
          by simp_all
        from "1.IH" [OF False eq] have "n div 10 = m div 10" .
        moreover from last have "n mod 10 = m mod 10" by (rule digit) simp_all
        ultimately show ?thesis by (metis div_mult_mod_eq)
      qed
    qed
  qed
  have inj_candidate: "inj (candidate name)" for name
    by (rule injI) (simp add: candidate_def inj)
  have finite: "finite {j. candidate name j \<in> set keys}" for name keys
  proof -
    have "finite (candidate name -` set keys)"
      by (rule finite_vimageI [OF finite_set inj_candidate])
    then show ?thesis by (simp add: vimage_def)
  qed
  show ?thesis
  proof (relation "measure (\<lambda>(name, keys, i). card {j. i \<le> j \<and> candidate name j \<in> set keys})")
    show "wf (measure (\<lambda>(name, keys, i). card {j. i \<le> j \<and> candidate name j \<in> set keys}))"
      by simp
  next
    fix name :: string and keys :: "string list" and i :: nat
    assume mem: "candidate name i \<in> set keys"
    have fin: "finite {j. i \<le> j \<and> candidate name j \<in> set keys}"
      by (rule finite_subset [OF _ finite [of name keys]]) blast
    have "i \<in> {j. i \<le> j \<and> candidate name j \<in> set keys}"
      and "i \<notin> {j. i + 1 \<le> j \<and> candidate name j \<in> set keys}"
      using mem by simp_all
    moreover have "{j. i + 1 \<le> j \<and> candidate name j \<in> set keys}
            \<subseteq> {j. i \<le> j \<and> candidate name j \<in> set keys}"
      by auto
    ultimately have "{j. i + 1 \<le> j \<and> candidate name j \<in> set keys}
            \<subset> {j. i \<le> j \<and> candidate name j \<in> set keys}"
      by blast
    with fin have "card {j. i + 1 \<le> j \<and> candidate name j \<in> set keys}
            < card {j. i \<le> j \<and> candidate name j \<in> set keys}"
      by (rule psubset_card_mono)
    then show "((name, keys, i + 1), (name, keys, i))
            \<in> measure (\<lambda>(name, keys, i). card {j. i \<le> j \<and> candidate name j \<in> set keys})"
      by simp
  qed
qed

declare next_name.simps [simp del]

text \<open>
  Modelled from the spec: \<^verbatim>\<open>register_attr_or_module\<close> of the output graph builder
  (not among the sources) attaches the module to the enclosing graph under the name.
\<close>

definition the_modules :: "tx \<Rightarrow> (string \<times> nn_module) list" where
  "the_modules t = (case nn_modules (tx_output (state t)) of None \<Rightarrow> [] | Some ms \<Rightarrow> ms)"

definition register_attr_or_module :: "tx \<Rightarrow> nn_module \<Rightarrow> string \<Rightarrow> tx" where
  "register_attr_or_module t gm name =
     t\<lparr>state := (state t)\<lparr>tx_output := (tx_output (state t))
         \<lparr>nn_modules := Some (the_modules t @ [(name, gm)])\<rparr>\<rparr>\<rparr>"

definition add_subgraph :: "tx \<Rightarrow> string \<Rightarrow> nn_module \<Rightarrow> string \<times> tx" where
  "add_subgraph t name gm =
     (let next_name = next_name name (map fst (the_modules t)) 0
      in (next_name, register_attr_or_module t gm next_name))"

definition make_attr :: "tx \<Rightarrow> string \<Rightarrow> nat \<times> tx" where
  "make_attr t name = create_proxy t Get_attr (Name name) [] []"

text \<open>The guards of the trace: \<^verbatim>\<open>tx.output.guards\<close>.\<close>

definition add_guards :: "guard set \<Rightarrow> tx \<Rightarrow> tx" where
  "add_guards gs t =
     t\<lparr>state := (state t)\<lparr>tx_output := (tx_output (state t))
         \<lparr>guard_state := guard_state (tx_output (state t)) \<union> gs\<rparr>\<rparr>\<rparr>"

text \<open>
  The projection that \<^verbatim>\<open>speculate_branch\<close> builds with \<^verbatim>\<open>_replace\<close> from the
  checkpoint taken after the branch.
\<close>

definition comparable_state :: "graphstate \<Rightarrow> graphstate" where
  "comparable_state st =
     st\<lparr>tx_output := (tx_output st)
       \<lparr>guard_state := {},
        side_effects :=
          \<lparr>id_to_variable =
             (\<lambda>k. case id_to_variable (side_effects (tx_output st)) k of
                     None \<Rightarrow> None
                   | Some v \<Rightarrow> if \<not> is_NewCellVariable v then Some v else None),
           store_attr_mutations =
             (\<lambda>k. if \<not> is_AttributeMutationNew k
                   then store_attr_mutations (side_effects (tx_output st)) k else None),
           keepalive = []\<rparr>,
        nn_modules := None,
        timestamp := 0,
        name_to_input := []\<rparr>\<rparr>"

text \<open>One graph input for each operand.\<close>

fun declare_inputs :: "tx \<Rightarrow> tv list \<Rightarrow> exc option \<times> tx" where
  "declare_inputs t [] = (None, t)"
| "declare_inputs t (a # as) =
     (if \<not> is_TensorVariable a then (Some (AssertionError []), t)
      else declare_inputs (create_graph_input t (proxy (the (the_tensor a)))) as)"

type_synonym speculation =
  "tv \<times> node list \<times> guard set \<times> (string \<times> nn_module) list option \<times> graphstate"

definition speculate_branch ::
  "env \<Rightarrow> tv list \<Rightarrow> tv list \<Rightarrow> node list \<Rightarrow> graphstate \<Rightarrow> bool \<Rightarrow> tx
     \<Rightarrow> (exc + speculation) \<times> tx" where
  "speculate_branch e args sub_args graph_checkpoint checkpoint branch t =
     (let t1 = t\<lparr>graph := [],
                 state := (state t)\<lparr>tx_output := (tx_output (state t))
                   \<lparr>graphargs := [], name_to_input := []\<rparr>\<rparr>\<rparr>
      in case declare_inputs t1 sub_args of
           (Some ex, t2) \<Rightarrow> raise ex t2
         | (None, t2) \<Rightarrow>
             (let ix = (if branch then 1 else 2)
              in case inline_call e t2 (args ! ix) sub_args of
                   (Inl ex, t3) \<Rightarrow> raise ex t3
                 | (Inr outp, t3) \<Rightarrow>
                     if \<not> is_TensorVariable outp then raise (AssertionError []) t3
                     else
                       (let t4 = add_guards (guards outp) t3;
                            t5 = create_node t4 Output (Name ''output'')
                                   [PSeq [the (as_proxy outp)]] [];
                            t6 = t5\<lparr>state := (state t5)\<lparr>tx_output := (tx_output (state t5))
                                   \<lparr>side_effects := prune_dead_object_new e t5\<rparr>\<rparr>\<rparr>;
                            st = copy_graphstate t6;
                            t7 = restore_graphstate checkpoint (t6\<lparr>graph := graph_checkpoint\<rparr>)
                        in return (outp, graph t6, guard_state (tx_output st),
                                   nn_modules (tx_output st), comparable_state st) t7)))"

fun is_exactly_TensorVariable :: "tv \<Rightarrow> bool" where
  "is_exactly_TensorVariable (TensorVariable t g) = True"
| "is_exactly_TensorVariable _ = False"

fun is_exactly_ListVariable :: "tv \<Rightarrow> bool" where
  "is_exactly_ListVariable (ListVariable xs g) = True"
| "is_exactly_ListVariable _ = False"

text \<open>
  What follows the two speculations in \<^verbatim>\<open>TorchPyOperator.call_function\<close>: the
  comparison, the guards, the two sub-graphs and the node of the conditional.
\<close>

definition merge_branches ::
  "env \<Rightarrow> string \<Rightarrow> tv list \<Rightarrow> tv list \<Rightarrow> speculation \<Rightarrow> speculation \<Rightarrow> tx
     \<Rightarrow> (exc + tv) \<times> tx" where
  "merge_branches e name args sub_args true_branch false_branch t =
     (case true_branch of (true_r, true_graph, true_guards, true_nn_modules, true_cmp) \<Rightarrow>
      case false_branch of (false_r, false_graph, false_guards, false_nn_modules, false_cmp) \<Rightarrow>
        if true_cmp \<noteq> false_cmp then raise (Unsupported (diff e true_cmp false_cmp)) t
        else
          (let t1 = add_guards false_guards t;
               t2 = add_guards true_guards t1;
               (true_name, t3) = add_subgraph t2 ''true'' (GraphModule true_nn_modules true_graph);
               (false_name, t4) =
                 add_subgraph t3 ''false'' (GraphModule false_nn_modules false_graph);
               t5 = t4\<lparr>state := (state t4)\<lparr>tx_output := (tx_output (state t4))
                      \<lparr>side_effects := side_effects (tx_output true_cmp)\<rparr>\<rparr>\<rparr>;
               (true_node, t6) = make_attr t5 true_name;
               (false_node, t7) = make_attr t6 false_name;
               p_args = [the (as_proxy (args ! 0)), PNode true_node, PNode false_node,
                         PSeq (map (\<lambda>a. the (as_proxy a)) sub_args)]
           in case example_value (the (the_tensor true_r)) of
                None \<Rightarrow> raise (KeyError ''example_value'') t7
              | Some example \<Rightarrow>
                  (let (p, t8) = create_proxy t7 Call_function (PyOperator name) p_args []
                   in (wrap_fx_proxy e (graph t8) p (Some example) {}, t8))))"

text \<open>
  \<^verbatim>\<open>TorchPyOperator.call_function\<close> for the operator named \<open>name\<close>; for
  \<^verbatim>\<open>cond\<close> the arguments are the predicate, the two branch functions and the
  list of operands.
\<close>

definition py_operator_call_function ::
  "env \<Rightarrow> tx \<Rightarrow> string \<Rightarrow> tv list \<Rightarrow> (string \<times> tv) list \<Rightarrow> (exc + tv) \<times> tx" where
  "py_operator_call_function e t name args kwargs =
     (if kwargs \<noteq> [] then raise (AssertionError ''kwargs are not supported, yet'') t
      else if name = ''cond'' then
        (if length args \<noteq> 4 then raise (AssertionError []) t
         else if \<not> is_exactly_TensorVariable (args ! 0) then raise (AssertionError []) t
         else if \<not> is_user_function (args ! 1) then raise (AssertionError []) t
         else if \<not> is_user_function (args ! 2) then raise (AssertionError []) t
         else if \<not> is_exactly_ListVariable (args ! 3) then raise (AssertionError []) t
         else
           (let graph_checkpoint = graph t;
                checkpoint = copy_graphstate t;
                sub_args = items_of (args ! 3)
            in case speculate_branch e args sub_args graph_checkpoint checkpoint True t of
                 (Inl ex, t1) \<Rightarrow> raise ex t1
               | (Inr true_branch, t1) \<Rightarrow>
                   (case speculate_branch e args sub_args graph_checkpoint checkpoint False t1 of
                      (Inl ex, t2) \<Rightarrow> raise ex t2
                    | (Inr false_branch, t2) \<Rightarrow>
                        merge_branches e name args sub_args true_branch false_branch t2)))
      else raise (Unsupported (''PyOperator '' @ name)) t)"


text \<open>
  The projection as the specification words it: the checkpoint with the guard set,
  the side-effect records of new cells and of attribute mutations on new objects, the
  module table, the timestamp and the input names cleared, and nothing else changed.
\<close>

definition spec_comparable_state :: "graphstate \<Rightarrow> graphstate" where
  "spec_comparable_state st =
     st\<lparr>tx_output := (tx_output st)
       \<lparr>guard_state := {},
        side_effects := (side_effects (tx_output st))
          \<lparr>id_to_variable :=
             (\<lambda>k. case id_to_variable (side_effects (tx_output st)) k of
                     None \<Rightarrow> None
                   | Some v \<Rightarrow> if is_NewCellVariable v then None else Some v),
           store_attr_mutations :=
             (\<lambda>k. if is_AttributeMutationNew k then None
                   else store_attr_mutations (side_effects (tx_output st)) k)\<rparr>,
        nn_modules := None,
        timestamp := 0,
        name_to_input := []\<rparr>\<rparr>"

section \<open>A concrete instance\<close>

text \<open>
  One instance of the collaborators and an empty trace, for the concrete instances of
  the theorems below: no registered constant function, dynamic shapes disabled, a
  \<^verbatim>\<open>wrap_fx_proxy\<close> that wraps every proxy as a tensor value without metadata, and
  the other collaborators returning nothing of interest.
\<close>

definition example_env :: env where
  "example_env =
     \<lparr>constant_functions = Map.empty,
      dynamic_shapes = False,
      distributed_available = True,
      HAS_NUMPY = True,
      py_call = (\<lambda>f args kwargs. Inl (Raised 0)),
      wrap_fx_proxy =
        (\<lambda>g p ex opts. Inr (TensorVariable
           \<lparr>proxy = p, dtype = None, tsize = None, device = None, example_value = ex\<rparr> opts)),
      unpack_other = (\<lambda>v. None),
      call_method = (\<lambda>t v m. raise NotImplementedError t),
      grad_mode_create = (\<lambda>t v opts. raise NotImplementedError t),
      guards_singleton = {},
      grad_enabled = True,
      autocast_create = (\<lambda>args kwargs. Inl NotImplementedError),
      inline_torch_function_unwrapped =
        (\<lambda>t f sg meta opts args kwargs. raise NotImplementedError t),
      nowrap_function = (\<lambda>f. False),
      cudnn_is_acceptable = (\<lambda>d dv. Inr False),
      generator_state = (\<lambda>f. 0),
      find_symbolic_locals_name = (\<lambda>locals v. None),
      inline_call = (\<lambda>t f args. raise NotImplementedError t),
      prune_dead_object_new = (\<lambda>t. side_effects (tx_output (state t))),
      diff = (\<lambda>a b. ''states differ'')\<rparr>"

definition example_state :: graphstate where
  "example_state =
     \<lparr>tx_output =
        \<lparr>graphargs = [], guard_state = {}, nn_modules = Some [],
         side_effects =
           \<lparr>id_to_variable = Map.empty, store_attr_mutations = Map.empty, keepalive = []\<rparr>,
         timestamp = 0, name_to_input = []\<rparr>,
      symbolic_locals = Map.empty, frame = 0\<rparr>"

definition example_tx :: tx where
  "example_tx = \<lparr>graph = [], state = example_state\<rparr>"

fun is_LambdaVariable :: "tv \<Rightarrow> bool" where
  "is_LambdaVariable (LambdaVariable f c g) = True"
| "is_LambdaVariable _ = False"

section \<open>Properties of the branch speculator\<close>

text \<open>
  Claim C2, as stated, at a checkpoint whose side-effect log keeps one object alive:
  the projection of the source is not the checkpoint with only the listed fields
  cleared, because \<^verbatim>\<open>keepalive=[]\<close> empties that list too.
\<close>

theorem comparable_state_keepalive_counterexample:
  "comparable_state
     \<lparr>tx_output = \<lparr>graphargs = [], guard_state = {}, nn_modules = None,
        side_effects = \<lparr>id_to_variable = Map.empty, store_attr_mutations = Map.empty,
          keepalive = [1]\<rparr>,
        timestamp = 0, name_to_input = []\<rparr>,
      symbolic_locals = Map.empty, frame = 0\<rparr>
   \<noteq> spec_comparable_state
     \<lparr>tx_output = \<lparr>graphargs = [], guard_state = {}, nn_modules = None,
        side_effects = \<lparr>id_to_variable = Map.empty, store_attr_mutations = Map.empty,
          keepalive = [1]\<rparr>,
        timestamp = 0, name_to_input = []\<rparr>,
      symbolic_locals = Map.empty, frame = 0\<rparr>"
  by (simp add: comparable_state_def spec_comparable_state_def)

text \<open>
  Claim C2, amended: the comparable projection of the checkpoint taken after a branch
  is the checkpoint with these fields cleared: the guard set, the side-effect records
  whose value is a new cell, the attribute mutations recorded for new objects, the
  keep-alive list of the side-effect log, the module table, the timestamp and the
  input names. The graph arguments, the symbolic locals and the rest of the
  translator's state are carried over unchanged.
\<close>

theorem comparable_state_projection:
  "comparable_state st =
     (spec_comparable_state st)\<lparr>tx_output := (tx_output (spec_comparable_state st))
        \<lparr>side_effects := (side_effects (tx_output (spec_comparable_state st)))
           \<lparr>keepalive := []\<rparr>\<rparr>\<rparr>
   \<and> guard_state (tx_output (comparable_state st)) = {}
   \<and> id_to_variable (side_effects (tx_output (comparable_state st))) =
       (\<lambda>k. case id_to_variable (side_effects (tx_output st)) k of
               None \<Rightarrow> None
             | Some v \<Rightarrow> if is_NewCellVariable v then None else Some v)
   \<and> store_attr_mutations (side_effects (tx_output (comparable_state st))) =
       (\<lambda>k. if is_AttributeMutationNew k then None
             else store_attr_mutations (side_effects (tx_output st)) k)
   \<and> keepalive (side_effects (tx_output (comparable_state st))) = []
   \<and> nn_modules (tx_output (comparable_state st)) = None
   \<and> timestamp (tx_output (comparable_state st)) = 0
   \<and> name_to_input (tx_output (comparable_state st)) = []
   \<and> graphargs (tx_output (comparable_state st)) = graphargs (tx_output st)
   \<and> symbolic_locals (comparable_state st) = symbolic_locals st
   \<and> frame (comparable_state st) = frame st"
  by (auto simp add: comparable_state_def spec_comparable_state_def fun_eq_iff
        split: option.splits)

section \<open>Properties of the classifier\<close>

subsection \<open>The tuple-normalizing constructors\<close>

lemma family_not_foldable:
  "f \<in> {Utils_single, Utils_pair, Utils_triple, Utils_quadruple, Utils_ntuple}
     \<Longrightarrow> \<not> can_constant_fold_through e f"
  by (auto simp: can_constant_fold_through_def constant_fold_functions_def)

lemma dispatch_ntuple:
  assumes "f \<in> {Utils_single, Utils_pair, Utils_triple, Utils_quadruple, Utils_ntuple}"
    and "f \<notin> dom (constant_functions e)"
  shows "dispatch e t f sg args kwargs =
     Some (call_ntuple e f sg args kwargs
             (propagate (TorchVariable f sg # args @ map snd kwargs)), t)"
proof -
  have nf: "\<not> can_constant_fold_through e f"
    using assms(1) by (rule family_not_foldable)
  have nm: "\<not> is_nn_module_type f" 
    and n1: "f \<notin> {Torch_is_tensor, Torch_is_tensor_like}"
    and n2: "f \<notin> {Torch_is_floating_point, Torch_is_complex}"
    and n3: "f \<noteq> Torch_numel"
    and n4: "f \<notin> {Onnx_shape_as_tensor, Torch_shape_as_tensor}"
    using assms(1) by auto
  show ?thesis
    unfolding dispatch_def Let_def
    using assms nf nm n1 n2 n3 n4 by (simp only: if_False if_True simp_thms)
qed

text \<open>
  Claim C10: a fixed-length constructor (\<^verbatim>\<open>_single\<close>, \<^verbatim>\<open>_pair\<close>, \<^verbatim>\<open>_triple\<close>,
  \<^verbatim>\<open>_quadruple\<close>) applied to a value that supports sequence unpacking returns the
  tuple of exactly the items of that value, whatever their number: the count of the
  constructor is not compared with it.
\<close>

theorem fixed_ntuple_unpacks:
  assumes "f \<in> {Utils_single, Utils_pair, Utils_triple, Utils_quadruple}"
    and "f \<notin> dom (constant_functions e)"
    and "unpack_var_sequence e value = Some items"
  shows "call_function e t f sg (value # args) kwargs =
     return (TupleVariable items
               (propagate (value # TorchVariable f sg # (value # args) @ map snd kwargs))) t"
proof -
  from assms(1) have fam: "f \<in> {Utils_single, Utils_pair, Utils_triple, Utils_quadruple, Utils_ntuple}"
    by auto
  from assms(1) have cnt: "py_as_int (closure_count f) \<noteq> None" and nn: "f \<noteq> Utils_ntuple"
    by auto
  show ?thesis
    using assms(3) cnt nn
    by (auto simp add: call_function.simps dispatch_ntuple [OF fam assms(2)] call_ntuple_def
          handle_ntuple_def has_unpack_var_sequence_def Let_def)
qed

text \<open>\<^verbatim>\<open>_pair\<close> on a list of three items gives the tuple of the three.\<close>

theorem fixed_ntuple_unpacks_witness:
  "Utils_pair \<in> {Utils_single, Utils_pair, Utils_triple, Utils_quadruple}
   \<and> Utils_pair \<notin> dom (constant_functions example_env)
   \<and> unpack_var_sequence example_env
        (ListVariable [ConstantVariable (PyInt 1) {}, ConstantVariable (PyInt 2) {},
                       ConstantVariable (PyInt 3) {}] {})
       = Some [ConstantVariable (PyInt 1) {}, ConstantVariable (PyInt 2) {},
               ConstantVariable (PyInt 3) {}]
   \<and> call_function example_env example_tx Utils_pair {}
        [ListVariable [ConstantVariable (PyInt 1) {}, ConstantVariable (PyInt 2) {},
                       ConstantVariable (PyInt 3) {}] {}] []
       = return (TupleVariable [ConstantVariable (PyInt 1) {}, ConstantVariable (PyInt 2) {},
                                ConstantVariable (PyInt 3) {}] {}) example_tx"
  using fixed_ntuple_unpacks [of Utils_pair example_env
      "ListVariable [ConstantVariable (PyInt 1) {}, ConstantVariable (PyInt 2) {},
                     ConstantVariable (PyInt 3) {}] {}"
      "[ConstantVariable (PyInt 1) {}, ConstantVariable (PyInt 2) {},
        ConstantVariable (PyInt 3) {}]" example_tx "{}" "[]" "[]"]
  by (simp add: example_env_def propagate_def)

lemma call_function_Some:
  "dispatch e t f sg args kwargs = Some r \<Longrightarrow> call_function e t f sg args kwargs = r"
  by (simp add: call_function.simps)

text \<open>
  Claim C7, as stated, at \<^verbatim>\<open>_pair(5)\<close>: the classification of a fixed-length
  constructor is the handled value itself, here the constant \<open>(5, 5)\<close>, and not a
  lambda.
\<close>

theorem pair_returns_value_counterexample:
  "call_function example_env example_tx Utils_pair {} [ConstantVariable (PyInt 5) {}] []
     = return (ConstantVariable (PyTuple [PyInt 5, PyInt 5]) {}) example_tx
   \<and> \<not> is_LambdaVariable (ConstantVariable (PyTuple [PyInt 5, PyInt 5]) {})"
proof -
  have "Utils_pair \<notin> dom (constant_functions example_env)"
    by (simp add: example_env_def)
  then show ?thesis
    by (simp add: call_function_Some dispatch_ntuple call_ntuple_def handle_ntuple_def
          has_unpack_var_sequence_def is_python_constant_def ntuple_parse_def propagate_def
          example_env_def numeral_2_eq_2)
qed

text \<open>
  Claim C7, amended. Classification of \<^verbatim>\<open>_ntuple(n)\<close> returns a lambda that holds
  \<^verbatim>\<open>handle_ntuple\<close> with the count \<open>n\<close>; classification of \<^verbatim>\<open>_single\<close>,
  \<^verbatim>\<open>_pair\<close>, \<^verbatim>\<open>_triple\<close> and \<^verbatim>\<open>_quadruple\<close> applies that handling to the first
  argument and returns its result. The handling of one value yields the tuple of the
  value's items when the value supports sequence unpacking; the constant of the
  broadcast when the value does not unpack and is a constant (\<open>n\<close> copies of a
  constant that is not iterable); and Unsupported for any other value.
\<close>

theorem ntuple_family:
  assumes "f \<notin> dom (constant_functions e)"
  shows
    "(f = Utils_ntuple \<and> as_python_constant a = Some c \<and> py_as_int c = Some n \<longrightarrow>
        call_function e t f sg (a # args) kwargs =
          return (LambdaVariable (Handle_ntuple n)
                    (TorchVariable f sg # (a # args) @ map snd kwargs)
                    (propagate (TorchVariable f sg # (a # args) @ map snd kwargs))) t)
     \<and> (f \<in> {Utils_single, Utils_pair, Utils_triple, Utils_quadruple} \<and>
          closure_count f = PyInt n \<longrightarrow>
        call_function e t f sg (a # args) kwargs =
          (handle_ntuple e n (TorchVariable f sg # (a # args) @ map snd kwargs) a, t))
     \<and> (unpack_var_sequence e val = Some items \<longrightarrow>
        handle_ntuple e n captured val =
          Inr (TupleVariable items (propagate (val # captured))))
     \<and> (unpack_var_sequence e val = None \<and> as_python_constant val = Some v \<longrightarrow>
        handle_ntuple e n captured val =
          Inr (ConstantVariable (ntuple_parse n v) (propagate (val # captured))))
     \<and> (py_iter v = None \<longrightarrow> ntuple_parse n v = PyTuple (replicate (nat n) v))
     \<and> (unpack_var_sequence e val = None \<and> as_python_constant val = None \<longrightarrow>
        handle_ntuple e n captured val = Inl (Unsupported ''torch.nn.modules.utils._ntuple''))"
proof (intro conjI impI)
  assume h: "f = Utils_ntuple \<and> as_python_constant a = Some c \<and> py_as_int c = Some n"
  then have fam: "f \<in> {Utils_single, Utils_pair, Utils_triple, Utils_quadruple, Utils_ntuple}"
    by simp
  show "call_function e t f sg (a # args) kwargs =
          return (LambdaVariable (Handle_ntuple n)
                    (TorchVariable f sg # (a # args) @ map snd kwargs)
                    (propagate (TorchVariable f sg # (a # args) @ map snd kwargs))) t"
    unfolding call_function_Some [OF dispatch_ntuple [OF fam assms]]
    using h by (simp add: call_ntuple_def Let_def)
next
  assume h: "f \<in> {Utils_single, Utils_pair, Utils_triple, Utils_quadruple} \<and>
          closure_count f = PyInt n"
  then have fam: "f \<in> {Utils_single, Utils_pair, Utils_triple, Utils_quadruple, Utils_ntuple}"
    and nn: "f \<noteq> Utils_ntuple"
    by auto
  show "call_function e t f sg (a # args) kwargs =
          (handle_ntuple e n (TorchVariable f sg # (a # args) @ map snd kwargs) a, t)"
    unfolding call_function_Some [OF dispatch_ntuple [OF fam assms]]
    using h nn by (simp add: call_ntuple_def Let_def)
qed (simp_all add: handle_ntuple_def has_unpack_var_sequence_def is_python_constant_def
       ntuple_parse_def)

text \<open>
  \<^verbatim>\<open>_ntuple(3)\<close> is a lambda; \<^verbatim>\<open>_pair\<close> on the constant 5 is \<open>(5, 5)\<close>, on the
  constant \<open>(1, 2)\<close> the tuple of 1 and 2, on a value of another kind Unsupported.
\<close>

theorem ntuple_family_witness:
  "Utils_ntuple \<notin> dom (constant_functions example_env)
   \<and> Utils_pair \<notin> dom (constant_functions example_env)
   \<and> as_python_constant (ConstantVariable (PyInt 3) {}) = Some (PyInt 3)
   \<and> py_as_int (PyInt 3) = Some 3
   \<and> call_function example_env example_tx Utils_ntuple {} [ConstantVariable (PyInt 3) {}] []
       = return (LambdaVariable (Handle_ntuple 3)
                   [TorchVariable Utils_ntuple {}, ConstantVariable (PyInt 3) {}] {}) example_tx
   \<and> closure_count Utils_pair = PyInt 2
   \<and> call_function example_env example_tx Utils_pair {} [ConstantVariable (PyInt 5) {}] []
       = (handle_ntuple example_env 2
            [TorchVariable Utils_pair {}, ConstantVariable (PyInt 5) {}]
            (ConstantVariable (PyInt 5) {}), example_tx)
   \<and> unpack_var_sequence example_env (ConstantVariable (PyInt 5) {}) = None
   \<and> py_iter (PyInt 5) = None
   \<and> handle_ntuple example_env 2 [] (ConstantVariable (PyInt 5) {})
       = Inr (ConstantVariable (PyTuple [PyInt 5, PyInt 5]) {})
   \<and> unpack_var_sequence example_env (ConstantVariable (PyTuple [PyInt 1, PyInt 2]) {})
       = Some [ConstantVariable (PyInt 1) {}, ConstantVariable (PyInt 2) {}]
   \<and> handle_ntuple example_env 2 [] (ConstantVariable (PyTuple [PyInt 1, PyInt 2]) {})
       = Inr (TupleVariable [ConstantVariable (PyInt 1) {}, ConstantVariable (PyInt 2) {}] {})
   \<and> unpack_var_sequence example_env (OtherVariable 0 {}) = None
   \<and> as_python_constant (OtherVariable 0 {}) = None
   \<and> handle_ntuple example_env 2 [] (OtherVariable 0 {})
       = Inl (Unsupported ''torch.nn.modules.utils._ntuple'')"
proof -
  have c1: "Utils_ntuple \<notin> dom (constant_functions example_env)"
    and c2: "Utils_pair \<notin> dom (constant_functions example_env)"
    by (simp_all add: example_env_def)
  note a = ntuple_family [OF c1, where a = "ConstantVariable (PyInt 3) {}" and c = "PyInt 3"
      and n = 3 and t = example_tx and sg = "{}" and args = "[]" and kwargs = "[]"]
  note b = ntuple_family [OF c2, where a = "ConstantVariable (PyInt 5) {}" and n = 2
      and t = example_tx and sg = "{}" and args = "[]" and kwargs = "[]"
      and val = "ConstantVariable (PyTuple [PyInt 1, PyInt 2]) {}"
      and items = "[ConstantVariable (PyInt 1) {}, ConstantVariable (PyInt 2) {}]"
      and captured = "[]" and v = "PyInt 5"]
  note c = ntuple_family [OF c2, where n = 2 and val = "OtherVariable 0 {}"
      and captured = "[]"]
  note d = ntuple_family [OF c2, where n = 2 and val = "ConstantVariable (PyInt 5) {}"
      and captured = "[]" and v = "PyInt 5"]
  show ?thesis
    using a b c d c1 c2
    by (simp add: example_env_def propagate_def numeral_2_eq_2)
qed

subsection \<open>Constant folding\<close>






end
